theory Spec2Isabelle
  imports Main "HOL-Library.Sublist"
begin

section \<open>ClarityTasks: the task model, its storage and the filtered view\<close>

text \<open>
  The development follows \<^verbatim>\<open>ClarityTasks.py\<close>: the dataclass \<^verbatim>\<open>Task\<close>, the module
  functions \<^verbatim>\<open>load_tasks\<close> and \<^verbatim>\<open>save_tasks\<close>, and the methods of \<^verbatim>\<open>TodoApp\<close> that
  change or read the task list. A string is a list of 8-bit characters, read as the code
  points U+0000 to U+00FF; Python strings with a character above U+00FF are outside this
  type. The string functions below are Python's on these code points.
\<close>

subsection \<open>Strings: \<^verbatim>\<open>str.strip\<close>, \<^verbatim>\<open>str.lower\<close>, \<^verbatim>\<open>str.capitalize\<close>, \<^verbatim>\<open>in\<close>\<close>

text \<open>
  The characters for which \<^verbatim>\<open>str.isspace\<close> holds, which are the ones \<^verbatim>\<open>str.strip()\<close>
  removes from both ends: the space, U+0009 to U+000D, U+001C to U+001F, U+0085 and the
  no-break space U+00A0.
\<close>

definition py_whitespace :: "char list" where
  "py_whitespace =
     [CHR '' '', CHR 0x09, CHR 0x0A, CHR 0x0B, CHR 0x0C, CHR 0x0D,
      CHR 0x1C, CHR 0x1D, CHR 0x1E, CHR 0x1F, CHR 0x85, CHR 0xA0]"

definition is_space :: "char \<Rightarrow> bool" where
  "is_space c = (c \<in> set py_whitespace)"

definition strip :: "string \<Rightarrow> string" where
  "strip s = rev (dropWhile is_space (rev (dropWhile is_space s)))"

text \<open>
  The cased letters below U+0100 that have their partner below U+0100: A to Z with a to
  z, and U+00C0 to U+00DE without the multiplication sign U+00D7 with U+00E0 to U+00FE
  without the division sign U+00F7. \<^verbatim>\<open>str.lower()\<close> maps each capital to its small letter
  and leaves every other character below U+0100 as it is.
\<close>

definition capital_letters :: "char list" where
  "capital_letters =
     ''ABCDEFGHIJKLMNOPQRSTUVWXYZ'' @
     [CHR 0xC0, CHR 0xC1, CHR 0xC2, CHR 0xC3, CHR 0xC4, CHR 0xC5, CHR 0xC6, CHR 0xC7,
      CHR 0xC8, CHR 0xC9, CHR 0xCA, CHR 0xCB, CHR 0xCC, CHR 0xCD, CHR 0xCE, CHR 0xCF,
      CHR 0xD0, CHR 0xD1, CHR 0xD2, CHR 0xD3, CHR 0xD4, CHR 0xD5, CHR 0xD6,
      CHR 0xD8, CHR 0xD9, CHR 0xDA, CHR 0xDB, CHR 0xDC, CHR 0xDD, CHR 0xDE]"

definition small_letters :: "char list" where
  "small_letters =
     ''abcdefghijklmnopqrstuvwxyz'' @
     [CHR 0xE0, CHR 0xE1, CHR 0xE2, CHR 0xE3, CHR 0xE4, CHR 0xE5, CHR 0xE6, CHR 0xE7,
      CHR 0xE8, CHR 0xE9, CHR 0xEA, CHR 0xEB, CHR 0xEC, CHR 0xED, CHR 0xEE, CHR 0xEF,
      CHR 0xF0, CHR 0xF1, CHR 0xF2, CHR 0xF3, CHR 0xF4, CHR 0xF5, CHR 0xF6,
      CHR 0xF8, CHR 0xF9, CHR 0xFA, CHR 0xFB, CHR 0xFC, CHR 0xFD, CHR 0xFE]"

definition lower_char :: "char \<Rightarrow> char" where
  "lower_char c =
     (case map_of (zip capital_letters small_letters) c of
        Some l \<Rightarrow> l
      | None \<Rightarrow> c)"

definition upper_char :: "char \<Rightarrow> char" where
  "upper_char c =
     (case map_of (zip small_letters capital_letters) c of
        Some u \<Rightarrow> u
      | None \<Rightarrow> c)"

definition lower :: "string \<Rightarrow> string" where
  "lower s = map lower_char s"

text \<open>
  \<^verbatim>\<open>str.capitalize()\<close> puts the first character into title case and the rest into lower
  case. The title case of the sharp s U+00DF is the two letters \<^verbatim>\<open>Ss\<close>. The title cases of the
  micro sign U+00B5 and of U+00FF are U+039C and U+0178, which this string type does not
  have; \<open>capitalize\<close> leaves these two characters in place. The program only compares the
  result with \<^verbatim>\<open>Low\<close>, \<^verbatim>\<open>Medium\<close> and \<^verbatim>\<open>High\<close> and stores it when it is one of them, and a
  string that begins with one of these characters is none of the three.
\<close>

definition capitalize :: "string \<Rightarrow> string" where
  "capitalize s =
     (case s of
        [] \<Rightarrow> []
      | c # cs \<Rightarrow>
          (if c = CHR 0xDF then ''Ss'' else [upper_char c]) @ map lower_char cs)"

fun startswith :: "string \<Rightarrow> string \<Rightarrow> bool" where
  "startswith hay [] = True"
| "startswith [] (q # qs) = False"
| "startswith (h # hs) (q # qs) = (h = q \<and> startswith hs qs)"

text \<open>\<open>py_in q hay\<close> is Python's \<^verbatim>\<open>q in hay\<close> on strings.\<close>

fun py_in :: "string \<Rightarrow> string \<Rightarrow> bool" where
  "py_in q [] = (q = [])"
| "py_in q (h # hs) = (startswith (h # hs) q \<or> py_in q hs)"

subsection \<open>Dates: \<^verbatim>\<open>datetime.datetime.strptime(s, "%Y-%m-%d")\<close>\<close>

text \<open>
  A calendar date is year, month, day; Python orders dates chronologically.
\<close>

datatype date = Date nat nat nat

fun date_less :: "date \<Rightarrow> date \<Rightarrow> bool" where
  "date_less (Date y m d) (Date y' m' d') =
     (y < y' \<or> (y = y' \<and> (m < m' \<or> (m = m' \<and> d < d'))))"

definition is_leap :: "nat \<Rightarrow> bool" where
  "is_leap y = (y mod 4 = 0 \<and> (y mod 100 \<noteq> 0 \<or> y mod 400 = 0))"

definition days_in_month :: "nat \<Rightarrow> nat \<Rightarrow> nat" where
  "days_in_month y m =
     (if m = 2 then (if is_leap y then 29 else 28)
      else if m = 4 \<or> m = 6 \<or> m = 9 \<or> m = 11 then 30
      else 31)"

definition is_digit :: "char \<Rightarrow> bool" where
  "is_digit c = (c \<in> set ''0123456789'')"

definition digit_value :: "char \<Rightarrow> nat" where
  "digit_value c = of_char c - 48"

text \<open>
  The library turns the format \<^verbatim>\<open>%Y-%m-%d\<close> into the regular expression
  \<^verbatim>\<open>(?P<Y>\d\d\d\d)-(?P<m>1[0-2]|0[1-9]|[1-9])-(?P<d>3[0-1]|[1-2]\d|0[1-9]|[1-9]| [1-9])\<close>
  and matches it at the start of the string; below U+0100 the only characters \<^verbatim>\<open>\d\<close>
  matches are the ten digits 0 to 9. Each function below lists the ways its group can
  match a prefix, in the order the alternatives are tried, with the rest of the string.
\<close>

definition re_year :: "string \<Rightarrow> (nat \<times> string) list" where
  "re_year s =
     (case s of
        a # b # c # d # r \<Rightarrow>
          (if is_digit a \<and> is_digit b \<and> is_digit c \<and> is_digit d
           then [(1000 * digit_value a + 100 * digit_value b + 10 * digit_value c
                  + digit_value d, r)]
           else [])
      | _ \<Rightarrow> [])"

definition re_dash :: "string \<Rightarrow> string list" where
  "re_dash s = (case s of c # r \<Rightarrow> (if c = CHR ''-'' then [r] else []) | [] \<Rightarrow> [])"

definition re_month :: "string \<Rightarrow> (nat \<times> string) list" where
  "re_month s =
     (case s of
        a # b # r \<Rightarrow>
          (if a = CHR ''1'' \<and> b \<in> set ''012'' then [(10 + digit_value b, r)] else [])
      | _ \<Rightarrow> [])
     @ (case s of
        a # b # r \<Rightarrow>
          (if a = CHR ''0'' \<and> b \<in> set ''123456789'' then [(digit_value b, r)] else [])
      | _ \<Rightarrow> [])
     @ (case s of
        a # r \<Rightarrow> (if a \<in> set ''123456789'' then [(digit_value a, r)] else [])
      | _ \<Rightarrow> [])"

definition re_day :: "string \<Rightarrow> (nat \<times> string) list" where
  "re_day s =
     (case s of
        a # b # r \<Rightarrow>
          (if a = CHR ''3'' \<and> b \<in> set ''01'' then [(30 + digit_value b, r)] else [])
      | _ \<Rightarrow> [])
     @ (case s of
        a # b # r \<Rightarrow>
          (if a \<in> set ''12'' \<and> is_digit b
           then [(10 * digit_value a + digit_value b, r)] else [])
      | _ \<Rightarrow> [])
     @ (case s of
        a # b # r \<Rightarrow>
          (if a = CHR ''0'' \<and> b \<in> set ''123456789'' then [(digit_value b, r)] else [])
      | _ \<Rightarrow> [])
     @ (case s of
        a # r \<Rightarrow> (if a \<in> set ''123456789'' then [(digit_value a, r)] else [])
      | _ \<Rightarrow> [])
     @ (case s of
        a # b # r \<Rightarrow>
          (if a = CHR '' '' \<and> b \<in> set ''123456789'' then [(digit_value b, r)] else [])
      | _ \<Rightarrow> [])"

text \<open>
  \<open>re_match s\<close> is the regular expression's \<^verbatim>\<open>match\<close>: the first way, in backtracking
  order, to match the whole pattern, as the three groups and the unmatched rest.
\<close>

definition re_match :: "string \<Rightarrow> (nat \<times> nat \<times> nat \<times> string) option" where
  "re_match s =
     (case [(y, m, d, r5).
              (y, r1) \<leftarrow> re_year s, r2 \<leftarrow> re_dash r1, (m, r3) \<leftarrow> re_month r2,
              r4 \<leftarrow> re_dash r3, (d, r5) \<leftarrow> re_day r4] of
        [] \<Rightarrow> None
      | found # _ \<Rightarrow> Some found)"

text \<open>
  \<open>strptime_date s\<close> is \<^verbatim>\<open>datetime.datetime.strptime(s, DATE_FMT).date()\<close>; \<open>None\<close> stands
  for the \<^verbatim>\<open>ValueError\<close> the call raises: when the pattern does not match, when
  unconverted data remains after the match, and when year, month and day are no date
  (year 0, or a day the month does not have).
\<close>

definition strptime_date :: "string \<Rightarrow> date option" where
  "strptime_date s =
     (case re_match s of
        None \<Rightarrow> None
      | Some (y, m, d, rest) \<Rightarrow>
          if rest \<noteq> [] then None
          else if 1 \<le> y \<and> d \<le> days_in_month y m then Some (Date y m d)
          else None)"

subsection \<open>The dataclass \<^verbatim>\<open>Task\<close>\<close>

record task =
  title :: string
  "done" :: bool
  priority :: string
  due :: "string option"
  created :: string

text \<open>
  \<^verbatim>\<open>Task.is_overdue\<close> and \<^verbatim>\<open>Task.is_due_today\<close>, with \<^verbatim>\<open>datetime.date.today()\<close> as the
  first argument. \<^verbatim>\<open>not self.due\<close> holds for \<^verbatim>\<open>None\<close> and for the empty string. The
  \<^verbatim>\<open>except ValueError\<close> clause is the \<open>None\<close> branch of the parse.
\<close>

definition is_overdue :: "date \<Rightarrow> task \<Rightarrow> bool" where
  "is_overdue today t =
     (case due t of
        None \<Rightarrow> False
      | Some s \<Rightarrow>
          if done t \<or> s = [] then False
          else (case strptime_date s of
                  Some d \<Rightarrow> date_less d today
                | None \<Rightarrow> False))"

definition is_due_today :: "date \<Rightarrow> task \<Rightarrow> bool" where
  "is_due_today today t =
     (case due t of
        None \<Rightarrow> False
      | Some s \<Rightarrow>
          if done t \<or> s = [] then False
          else (case strptime_date s of
                  Some d \<Rightarrow> d = today
                | None \<Rightarrow> False))"

subsection \<open>The backing file and the world around the program\<close>

text \<open>
  The values \<^verbatim>\<open>json.load\<close> returns and \<^verbatim>\<open>json.dump\<close> accepts. An object is the list of the
  items of the Python dict in insertion order (its keys are distinct). Numbers are
  integers here; a number with a fraction does not occur in a file the program wrote.
\<close>

datatype json =
    JNull
  | JBool bool
  | JNum int
  | JStr string
  | JArr "json list"
  | JObj "(string \<times> json) list"

text \<open>
  The backing file \<^verbatim>\<open>tasks.json\<close> is missing (\<open>None\<close>), holds the text of a JSON value
  (\<open>Document\<close>: the library's encoder and decoder are taken as inverse to each other on
  it), or holds text on which \<^verbatim>\<open>json.load\<close> raises (\<open>Damaged\<close>: an empty file, a file cut
  short, any other text).
\<close>

datatype file_content = Document json | Damaged

text \<open>
  What the operating system does at one attempt to write the file:
  \<open>Open_Fails\<close>: \<^verbatim>\<open>open(DATA_FILE, "w")\<close> raises and the file is not touched;
  \<open>Write_Fails\<close>: the file was opened, which truncates it, and an error stops the
  output before the closing bracket of the array is on disk.
\<close>

datatype io_fault = No_Fault | Open_Fails | Write_Fails

text \<open>The message boxes the modelled functions show, by their titles.\<close>

datatype dialog =
    Load_Error
  | Save_Error
  | Missing_Title
  | Invalid_Date
  | Select_Task
  | Invalid_Priority

text \<open>
  \<open>faults\<close> scripts the coming attempts to write the file, the next one first; when it
  is used up, writing succeeds. \<open>dialogs\<close> are the message boxes shown so far, oldest
  first. \<open>clock_today\<close> is what \<^verbatim>\<open>datetime.date.today()\<close> returns now and \<open>clock_now\<close>
  what \<^verbatim>\<open>datetime.datetime.now().strftime("%Y-%m-%d %H:%M:%S")\<close> returns now.
  \<open>Task_created_default\<close> is the default value of the dataclass field \<^verbatim>\<open>created\<close>: the
  expression after \<^verbatim>\<open>=\<close> in the class body is evaluated once, when the class statement
  runs, and the dataclass keeps its value.
\<close>

record world =
  disk :: "file_content option"
  faults :: "io_fault list"
  dialogs :: "dialog list"
  clock_today :: date
  clock_now :: string
  Task_created_default :: string

definition showbox :: "dialog \<Rightarrow> world \<Rightarrow> world" where
  "showbox d w = w\<lparr>dialogs := dialogs w @ [d]\<rparr>"

text \<open>The class statement of \<^verbatim>\<open>Task\<close>, run when the module is loaded.\<close>

definition class_Task :: "world \<Rightarrow> world" where
  "class_Task w = w\<lparr>Task_created_default := clock_now w\<rparr>"

text \<open>Time passing between two user actions.\<close>

definition clock_moves :: "date \<Rightarrow> string \<Rightarrow> world \<Rightarrow> world" where
  "clock_moves d s w = w\<lparr>clock_today := d, clock_now := s\<rparr>"

subsection \<open>Storage: \<^verbatim>\<open>save_tasks\<close> and \<^verbatim>\<open>load_tasks\<close>\<close>

text \<open>\<^verbatim>\<open>dataclasses.asdict\<close> on a \<^verbatim>\<open>Task\<close>.\<close>

definition asdict :: "task \<Rightarrow> json" where
  "asdict t =
     JObj [(''title'', JStr (title t)),
           (''done'', JBool (done t)),
           (''priority'', JStr (priority t)),
           (''due'', (case due t of None \<Rightarrow> JNull | Some s \<Rightarrow> JStr s)),
           (''created'', JStr (created t))]"

text \<open>
  \<^verbatim>\<open>save_tasks\<close>: \<^verbatim>\<open>open(DATA_FILE, "w")\<close>, then \<^verbatim>\<open>json.dump\<close> of the list of dicts; any
  exception is caught and shown in a message box, and the function returns normally.
\<close>

definition next_fault :: "world \<Rightarrow> io_fault" where
  "next_fault w = (case faults w of [] \<Rightarrow> No_Fault | f # fs \<Rightarrow> f)"

definition save_tasks :: "task list \<Rightarrow> world \<Rightarrow> world" where
  "save_tasks ts w =
     (case next_fault w of
        No_Fault \<Rightarrow>
          w\<lparr>disk := Some (Document (JArr (map asdict ts))), faults := tl (faults w)\<rparr>
      | Open_Fails \<Rightarrow>
          showbox Save_Error (w\<lparr>faults := tl (faults w)\<rparr>)
      | Write_Fails \<Rightarrow>
          showbox Save_Error (w\<lparr>disk := Some Damaged, faults := tl (faults w)\<rparr>))"

text \<open>\<^verbatim>\<open>item.get(key, default)\<close> on a dict, and \<^verbatim>\<open>bool(v)\<close> on a loaded value.\<close>

definition dict_get :: "(string \<times> json) list \<Rightarrow> string \<Rightarrow> json \<Rightarrow> json" where
  "dict_get kvs k dflt = (case map_of kvs k of None \<Rightarrow> dflt | Some v \<Rightarrow> v)"

fun truthy :: "json \<Rightarrow> bool" where
  "truthy JNull = False"
| "truthy (JBool b) = b"
| "truthy (JNum n) = (n \<noteq> 0)"
| "truthy (JStr s) = (s \<noteq> [])"
| "truthy (JArr xs) = (xs \<noteq> [])"
| "truthy (JObj kvs) = (kvs \<noteq> [])"

text \<open>
  The record \<open>task\<close> has the types the dataclass annotates. \<^verbatim>\<open>load_tasks\<close> passes what
  \<^verbatim>\<open>item.get\<close> returns to \<^verbatim>\<open>Task\<close> unchecked, so a file can put a value of another type
  into a field annotated \<^verbatim>\<open>str\<close>; \<open>text_field\<close> and \<open>due_field\<close> return \<open>None\<close> for such
  a value, and the task it would give is not a \<open>task\<close> of this development.
\<close>

fun text_field :: "json \<Rightarrow> string option" where
  "text_field (JStr s) = Some s"
| "text_field v = None"

fun due_field :: "json \<Rightarrow> string option option" where
  "due_field JNull = Some None"
| "due_field (JStr s) = Some (Some s)"
| "due_field v = None"

text \<open>
  The call \<^verbatim>\<open>Task(title=item.get("title", ""), ...)\<close> of \<^verbatim>\<open>load_tasks\<close> on the items \<open>kvs\<close>
  of a dict, with the clock's \<open>now\<close> string for the default of \<^verbatim>\<open>created\<close>.
\<close>

definition Task_of_item :: "string \<Rightarrow> (string \<times> json) list \<Rightarrow> task option" where
  "Task_of_item now kvs =
     (case (text_field (dict_get kvs ''title'' (JStr [])),
            text_field (dict_get kvs ''priority'' (JStr ''Medium'')),
            due_field (dict_get kvs ''due'' JNull),
            text_field (dict_get kvs ''created'' (JStr now))) of
        (Some ti, Some pr, Some du, Some cr) \<Rightarrow>
          Some \<lparr>title = ti, done = truthy (dict_get kvs ''done'' (JBool False)),
                priority = pr, due = du, created = cr\<rparr>
      | _ \<Rightarrow> None)"

text \<open>
  What \<^verbatim>\<open>for item in raw\<close> ranges over: the elements of a list, the keys of a dict, the
  characters of a string; \<open>None\<close> is the \<^verbatim>\<open>TypeError\<close> for a value that is not iterable.
\<close>

fun py_iter :: "json \<Rightarrow> json list option" where
  "py_iter (JArr xs) = Some xs"
| "py_iter (JObj kvs) = Some (map (\<lambda>kv. JStr (fst kv)) kvs)"
| "py_iter (JStr s) = Some (map (\<lambda>c. JStr [c]) s)"
| "py_iter v = None"

text \<open>
  The loop of \<^verbatim>\<open>load_tasks\<close>. \<open>Raised\<close>: an item is not a dict, so \<^verbatim>\<open>item.get\<close> raises.
  \<open>Untyped\<close>: the loop ran through, and some task holds a value outside its annotated
  type. The accumulator is \<open>None\<close> from the first such task on.
\<close>

datatype loop_result = Loaded "task list" | Raised | Untyped

fun load_items :: "string \<Rightarrow> json list \<Rightarrow> task list option \<Rightarrow> loop_result" where
  "load_items now [] acc = (case acc of Some ts \<Rightarrow> Loaded ts | None \<Rightarrow> Untyped)"
| "load_items now (item # rest) acc =
     (case item of
        JObj kvs \<Rightarrow>
          load_items now rest
            (case (acc, Task_of_item now kvs) of
               (Some ts, Some t) \<Rightarrow> Some (ts @ [t])
             | _ \<Rightarrow> None)
      | _ \<Rightarrow> Raised)"

text \<open>
  \<^verbatim>\<open>load_tasks\<close>: the list it returns and the world after it, or \<open>Untyped_Tasks\<close> when it
  returns a list with a task outside the record \<open>task\<close>. Every exception inside the
  \<^verbatim>\<open>try\<close> block ends in the same handler: a message box, and the empty list.
\<close>

datatype load_outcome = Returned "task list" world | Untyped_Tasks

definition load_tasks :: "world \<Rightarrow> load_outcome" where
  "load_tasks w =
     (case disk w of
        None \<Rightarrow> Returned [] w
      | Some Damaged \<Rightarrow> Returned [] (showbox Load_Error w)
      | Some (Document raw) \<Rightarrow>
          (case py_iter raw of
             None \<Rightarrow> Returned [] (showbox Load_Error w)
           | Some items \<Rightarrow>
               (case load_items (clock_now w) items (Some []) of
                  Loaded ts \<Rightarrow> Returned ts w
                | Raised \<Rightarrow> Returned [] (showbox Load_Error w)
                | Untyped \<Rightarrow> Untyped_Tasks)))"

subsection \<open>The controller \<^verbatim>\<open>TodoApp\<close>\<close>

text \<open>
  The attributes of \<^verbatim>\<open>TodoApp\<close> the modelled methods use. \<open>tree_rows\<close> are the rows of
  the tree view in order, row \<open>k\<close> under the item id \<^verbatim>\<open>str(k)\<close>; \<open>selection\<close> is the
  selected row, as \<^verbatim>\<open>int(sel[0])\<close> reads it, or \<open>None\<close> when no row is selected. The text
  of the status bar is not modelled.
\<close>

record app =
  tasks :: "task list"
  filtered_indices :: "nat list"
  search_var :: string
  filter_var :: string
  title_var :: string
  priority_var :: string
  due_var :: string
  tree_rows :: "(string \<times> string \<times> string \<times> string) list"
  selection :: "int option"
  env :: world

datatype py_exception = IndexError

definition valid_date :: "string \<Rightarrow> bool" where
  "valid_date s = (strptime_date s \<noteq> None)"

definition selected_index :: "app \<Rightarrow> nat option" where
  "selected_index st =
     (case selection st of
        None \<Rightarrow> None
      | Some view_row \<Rightarrow>
          if view_row < 0 \<or> view_row \<ge> int (length (filtered_indices st)) then None
          else Some (filtered_indices st ! nat view_row))"

definition matches_filter :: "date \<Rightarrow> string \<Rightarrow> task \<Rightarrow> bool" where
  "matches_filter today f t =
     (if f = ''All'' then True
      else if f = ''Active'' then \<not> done t
      else if f = ''Completed'' then done t
      else if f = ''Due Today'' then is_due_today today t
      else if f = ''Overdue'' then is_overdue today t
      else if f = ''High Priority'' then priority t = ''High'' \<and> \<not> done t
      else True)"

definition matches_search :: "string \<Rightarrow> task \<Rightarrow> bool" where
  "matches_search search t =
     (let q = lower (strip search) in
      if q = [] then True
      else py_in q (lower (title t @ '' '' @ priority t @ '' ''
                           @ (case due t of None \<Rightarrow> [] | Some d \<Rightarrow> d))))"

text \<open>
  The loop \<^verbatim>\<open>for i, t in enumerate(self.tasks)\<close> of \<^verbatim>\<open>refresh_view\<close>: \<open>i\<close> is the running
  index, the last argument the list \<^verbatim>\<open>self.filtered_indices\<close> built so far.
\<close>

fun build_indices :: "(task \<Rightarrow> bool) \<Rightarrow> nat \<Rightarrow> task list \<Rightarrow> nat list \<Rightarrow> nat list" where
  "build_indices visible i [] acc = acc"
| "build_indices visible i (t # ts) acc =
     build_indices visible (Suc i) ts (if visible t then acc @ [i] else acc)"

definition status_label :: "date \<Rightarrow> task \<Rightarrow> string" where
  "status_label today t =
     (if done t then ''Done''
      else if is_overdue today t then ''Overdue''
      else if is_due_today today t then ''Due Today''
      else ''Pending'')"

definition row_values :: "date \<Rightarrow> task \<Rightarrow> string \<times> string \<times> string \<times> string" where
  "row_values today t =
     (title t, priority t, (case due t of None \<Rightarrow> [] | Some d \<Rightarrow> d), status_label today t)"

text \<open>
  \<^verbatim>\<open>refresh_view\<close>: the tree is emptied (which empties the selection), the index map is
  rebuilt, the rows are inserted, and \<^verbatim>\<open>save_tasks(self.tasks)\<close> is the last statement.
  Every index the second loop reads was produced by the first, so \<^verbatim>\<open>self.tasks[i]\<close> is
  in range.
\<close>

definition refresh_view :: "app \<Rightarrow> app" where
  "refresh_view st =
     (let today = clock_today (env st);
          fi = build_indices
                 (\<lambda>t. matches_filter today (filter_var st) t \<and> matches_search (search_var st) t)
                 0 (tasks st) []
      in st\<lparr>filtered_indices := fi,
            tree_rows := map (\<lambda>i. row_values today (tasks st ! i)) fi,
            selection := None,
            env := save_tasks (tasks st) (env st)\<rparr>)"

text \<open>
  The traces on \<^verbatim>\<open>search_var\<close> and \<^verbatim>\<open>filter_var\<close>: every write to either variable (each
  keystroke in the search entry, each choice in the filter box) calls \<^verbatim>\<open>refresh_view\<close>.
\<close>

definition write_search_var :: "string \<Rightarrow> app \<Rightarrow> app" where
  "write_search_var s st = refresh_view (st\<lparr>search_var := s\<rparr>)"

definition write_filter_var :: "string \<Rightarrow> app \<Rightarrow> app" where
  "write_filter_var f st = refresh_view (st\<lparr>filter_var := f\<rparr>)"

text \<open>
  \<^verbatim>\<open>add_task\<close>. \<^verbatim>\<open>Task(title=title, priority=prio, due=due)\<close> leaves \<^verbatim>\<open>done\<close> and \<^verbatim>\<open>created\<close>
  to their defaults.
\<close>

definition add_task :: "app \<Rightarrow> app" where
  "add_task st =
     (let title' = strip (title_var st);
          prio = (if strip (priority_var st) = [] then ''Medium'' else strip (priority_var st));
          due' = (if strip (due_var st) = [] then None else Some (strip (due_var st)))
      in if title' = [] then st\<lparr>env := showbox Missing_Title (env st)\<rparr>
         else if (case due' of None \<Rightarrow> False | Some d \<Rightarrow> \<not> valid_date d)
           then st\<lparr>env := showbox Invalid_Date (env st)\<rparr>
         else
           (let ts = tasks st @ [\<lparr>title = title', done = False, priority = prio, due = due',
                                  created = Task_created_default (env st)\<rparr>]
            in refresh_view
                 (st\<lparr>tasks := ts, env := save_tasks ts (env st),
                     title_var := [], due_var := [], priority_var := ''Medium''\<rparr>)))"

text \<open>
  \<^verbatim>\<open>edit_selected\<close>. The three arguments are what the three \<^verbatim>\<open>askstring\<close> dialogs return,
  \<open>None\<close> for a cancelled dialog; a dialog that is not reached does not read its
  argument. \<^verbatim>\<open>self.tasks[idx]\<close> raises \<^verbatim>\<open>IndexError\<close> for an index past the list.
\<close>

definition edit_selected ::
  "string option \<Rightarrow> string option \<Rightarrow> string option \<Rightarrow> app \<Rightarrow> py_exception + app" where
  "edit_selected title_answer prio_answer due_answer st =
     (case selected_index st of
        None \<Rightarrow> Inr (st\<lparr>env := showbox Select_Task (env st)\<rparr>)
      | Some idx \<Rightarrow>
          if idx \<ge> length (tasks st) then Inl IndexError
          else
            (case title_answer of
               None \<Rightarrow> Inr st
             | Some ta \<Rightarrow>
                 (case prio_answer of
                    None \<Rightarrow> Inr st
                  | Some pa \<Rightarrow>
                      if capitalize pa \<notin> {''Low'', ''Medium'', ''High''}
                      then Inr (st\<lparr>env := showbox Invalid_Priority (env st)\<rparr>)
                      else
                        (case due_answer of
                           None \<Rightarrow> Inr st
                         | Some da \<Rightarrow>
                             if strip da \<noteq> [] \<and> \<not> valid_date (strip da)
                             then Inr (st\<lparr>env := showbox Invalid_Date (env st)\<rparr>)
                             else
                               (let t = tasks st ! idx;
                                    new_title = (if strip ta = [] then title t else strip ta);
                                    new_prio = capitalize pa;
                                    new_due = (if strip da = [] then None else Some (strip da));
                                    ts = (tasks st)
                                      [idx := t\<lparr>title := new_title, priority := new_prio,
                                                due := new_due\<rparr>]
                                in Inr (refresh_view
                                          (st\<lparr>tasks := ts,
                                              env := save_tasks ts (env st)\<rparr>)))))))"

text \<open>\<^verbatim>\<open>clear_completed\<close>.\<close>

definition clear_completed :: "app \<Rightarrow> app" where
  "clear_completed st =
     (let before = length (tasks st);
          ts = filter (\<lambda>t. \<not> done t) (tasks st)
      in if length ts \<noteq> before
         then refresh_view (st\<lparr>tasks := ts, env := save_tasks ts (env st)\<rparr>)
         else st\<lparr>tasks := ts\<rparr>)"

text \<open>
  \<^verbatim>\<open>TodoApp.__init__\<close> on the world \<open>w\<close>: the task list is what \<^verbatim>\<open>load_tasks\<close> returns, the
  variables have their initial values, and \<^verbatim>\<open>refresh_view\<close> populates the view. \<open>None\<close>
  when \<^verbatim>\<open>load_tasks\<close> returns tasks outside the record \<open>task\<close>.
\<close>

definition TodoApp_init :: "world \<Rightarrow> app option" where
  "TodoApp_init w =
     (case load_tasks w of
        Untyped_Tasks \<Rightarrow> None
      | Returned ts w' \<Rightarrow>
          Some (refresh_view
                  \<lparr>tasks = ts, filtered_indices = [], search_var = [], filter_var = ''All'',
                   title_var = [], priority_var = ''Medium'', due_var = [],
                   tree_rows = [], selection = None, env = w'\<rparr>))"

subsection \<open>The filter and search engine as the specification words it\<close>






subsection \<open>A small store for the examples\<close>

text \<open>
  The store of the specification's scenarios: task A, due 2000-01-01 and not done, and
  task B, without a due date and done; a world whose file is missing and whose clock
  reads 1 June 2024; and the application showing both tasks with the first row selected.
\<close>

definition task_A :: task where
  "task_A = \<lparr>title = ''A'', done = False, priority = ''Medium'', due = Some ''2000-01-01'',
             created = ''2024-05-01 08:00:00''\<rparr>"

definition task_B :: task where
  "task_B = \<lparr>title = ''B'', done = True, priority = ''Low'', due = None,
             created = ''2024-05-01 08:05:00''\<rparr>"

definition demo_world :: world where
  "demo_world = \<lparr>disk = None, faults = [], dialogs = [], clock_today = Date 2024 6 1,
                 clock_now = ''2024-06-01 12:00:00'',
                 Task_created_default = ''2024-06-01 09:00:00''\<rparr>"

definition demo_app :: app where
  "demo_app = \<lparr>tasks = [task_A, task_B], filtered_indices = [0, 1], search_var = [],
               filter_var = ''All'', title_var = [], priority_var = ''Medium'', due_var = [],
               tree_rows = [(''A'', ''Medium'', ''2000-01-01'', ''Overdue''),
                            (''B'', ''Low'', [], ''Done'')],
               selection = Some 0, env = demo_world\<rparr>"

text \<open>
  Two things the user and the clock do between calls: typing a title into the entry
  bound to \<^verbatim>\<open>title_var\<close>, and time moving on to a later reading of the clock.
\<close>

definition type_title :: "string \<Rightarrow> app \<Rightarrow> app" where
  "type_title s st = st\<lparr>title_var := s\<rparr>"

definition time_passes :: "date \<Rightarrow> string \<Rightarrow> app \<Rightarrow> app" where
  "time_passes d s st = st\<lparr>env := clock_moves d s (env st)\<rparr>"

section \<open>Properties\<close>

subsection \<open>Auxiliary facts\<close>




lemma strptime_empty: "strptime_date [] = None"
  by (simp add: strptime_date_def re_match_def re_year_def)

lemma load_items_asdict:
  "load_items now (map asdict ts) (Some acc) = Loaded (acc @ ts)"
proof (induction ts arbitrary: acc)
  case Nil
  then show ?case by simp
next
  case (Cons t ts)
  have "Task_of_item now [(''title'', JStr (title t)), (''done'', JBool (done t)),
           (''priority'', JStr (priority t)),
           (''due'', (case due t of None \<Rightarrow> JNull | Some s \<Rightarrow> JStr s)),
           (''created'', JStr (created t))] = Some t"
    by (cases "due t") (simp_all add: Task_of_item_def dict_get_def)
  then show ?case using Cons.IH [of "acc @ [t]"] by (simp add: asdict_def)
qed





lemma env_refresh_view: "env (refresh_view st) = save_tasks (tasks st) (env st)"
  by (simp add: refresh_view_def Let_def)

lemma tasks_refresh_view: "tasks (refresh_view st) = tasks st"
  by (simp add: refresh_view_def Let_def)

lemma default_save_tasks:
  "Task_created_default (save_tasks ts w) = Task_created_default w"
  by (cases "next_fault w") (simp_all add: save_tasks_def showbox_def)

lemma due_var_refresh_view: "due_var (refresh_view st) = due_var st"
  by (simp add: refresh_view_def Let_def)

lemma add_task_appends:
  assumes "strip (title_var st) \<noteq> []" and "strip (due_var st) = []"
  shows "tasks (add_task st) =
           tasks st @ [\<lparr>title = strip (title_var st), done = False,
                        priority = (if strip (priority_var st) = [] then ''Medium''
                                    else strip (priority_var st)),
                        due = None, created = Task_created_default (env st)\<rparr>]
         \<and> due_var (add_task st) = []
         \<and> Task_created_default (env (add_task st)) = Task_created_default (env st)"
  using assms
  by (simp add: add_task_def Let_def tasks_refresh_view env_refresh_view due_var_refresh_view
      default_save_tasks)

lemma strip_plain: "strip [] = []" "strip ''first'' = ''first''" "strip ''second'' = ''second''"
  by (simp_all add: strip_def is_space_def py_whitespace_def)

lemma strptime_2000: "strptime_date ''2000-01-01'' = Some (Date 2000 1 1)"
  by (simp add: strptime_date_def re_match_def re_year_def re_dash_def re_month_def
      re_day_def is_digit_def digit_value_def days_in_month_def is_leap_def)

lemma selected_demo: "selected_index demo_app = Some 0"
  by (simp add: selected_index_def demo_app_def)

lemma strip_blank: "strip ''  '' = []"
  by (simp add: strip_def is_space_def py_whitespace_def)

lemma strip_nil: "strip [] = []"
  by (simp add: strip_def)

lemma capitalize_high: "capitalize ''high'' = ''High''"
  by (simp add: capitalize_def upper_char_def lower_char_def capital_letters_def
      small_letters_def)

lemma load_items_typed:
  assumes "\<forall>item \<in> set items. \<exists>kvs t. item = JObj kvs \<and> Task_of_item now kvs = Some t"
  shows "load_items now items (Some acc) =
           Loaded (acc @ map (\<lambda>item. the (Task_of_item now (case item of JObj kvs \<Rightarrow> kvs | _ \<Rightarrow> []))) items)"
  using assms
proof (induction items arbitrary: acc)
  case Nil
  then show ?case by simp
next
  case (Cons item items)
  then obtain kvs t where it: "item = JObj kvs" "Task_of_item now kvs = Some t"
    by auto
  from Cons.prems have rest: "\<forall>item \<in> set items. \<exists>kvs t. item = JObj kvs \<and> Task_of_item now kvs = Some t"
    by simp
  show ?case
    using Cons.IH [OF rest, of "acc @ [t]"] it by simp
qed

lemma Task_of_item_no_title:
  assumes "map_of kvs ''title'' = None" and "Task_of_item now kvs = Some t"
  shows "title t = []"
  using assms
  by (auto simp: Task_of_item_def dict_get_def split: option.splits prod.splits)

subsection \<open>Priorities on the three paths that set them\<close>

text \<open>
  Claim C1 says that add, edit and load all reject a priority outside Low, Medium, High
  before any change of state. \<^verbatim>\<open>edit_selected\<close> does; \<^verbatim>\<open>load_tasks\<close> does not, although its
  comment announces validation: for the file
  \<^verbatim>\<open>[{"title": "x", "priority": "Urgent"}]\<close> it returns, without any message box, one task
  whose priority is \<^verbatim>\<open>Urgent\<close>.
\<close>

theorem load_tasks_keeps_unlisted_priority:
  "load_tasks (demo_world\<lparr>disk := Some (Document (JArr
       [JObj [(''title'', JStr ''x''), (''priority'', JStr ''Urgent'')]]))\<rparr>)
   = Returned
       [\<lparr>title = ''x'', done = False, priority = ''Urgent'', due = None,
         created = ''2024-06-01 12:00:00''\<rparr>]
       (demo_world\<lparr>disk := Some (Document (JArr
          [JObj [(''title'', JStr ''x''), (''priority'', JStr ''Urgent'')]]))\<rparr>)"
  by (simp add: load_tasks_def Task_of_item_def dict_get_def demo_world_def)

subsection \<open>What a save leaves in the backing file\<close>

text \<open>
  Claim C2, as stated, fails: a write that breaks off after \<^verbatim>\<open>open(DATA_FILE, "w")\<close> has
  truncated the file leaves neither the full serialization nor the prior content. Here the
  file held the empty list before, and one task is saved.
\<close>

theorem save_tasks_not_atomic:
  "disk (save_tasks [task_A] (demo_world\<lparr>disk := Some (Document (JArr [])), faults := [Write_Fails]\<rparr>))
     \<noteq> Some (Document (JArr (map asdict [task_A])))
   \<and> disk (save_tasks [task_A] (demo_world\<lparr>disk := Some (Document (JArr [])), faults := [Write_Fails]\<rparr>))
     \<noteq> disk (demo_world\<lparr>disk := Some (Document (JArr [])), faults := [Write_Fails]\<rparr>)"
  by (simp add: save_tasks_def next_fault_def showbox_def)

text \<open>
  Claim C2 as amended: \<^verbatim>\<open>save_tasks\<close> has three outcomes. Without a fault the file holds
  the full serialized list and no message box is shown; when opening fails the file keeps
  its prior content and a Save Error box is shown; when the write breaks off the file is
  left damaged (the prior content is lost) and a Save Error box is shown. The task list is
  only read: the function returns the world, and the list stays with the caller.
\<close>

theorem save_tasks_outcomes:
  "(next_fault w = No_Fault \<longrightarrow>
      disk (save_tasks ts w) = Some (Document (JArr (map asdict ts)))
      \<and> dialogs (save_tasks ts w) = dialogs w)
   \<and> (next_fault w = Open_Fails \<longrightarrow>
      disk (save_tasks ts w) = disk w
      \<and> dialogs (save_tasks ts w) = dialogs w @ [Save_Error])
   \<and> (next_fault w = Write_Fails \<longrightarrow>
      disk (save_tasks ts w) = Some Damaged
      \<and> dialogs (save_tasks ts w) = dialogs w @ [Save_Error])"
  by (simp add: save_tasks_def showbox_def)

text \<open>
  The three outcomes at the example world.
\<close>

theorem save_tasks_outcomes_witness:
  "disk (save_tasks [task_A] (demo_world\<lparr>faults := [Write_Fails]\<rparr>)) = Some Damaged
   \<and> dialogs (save_tasks [task_A] (demo_world\<lparr>faults := [Write_Fails]\<rparr>)) = [Save_Error]
   \<and> disk (save_tasks [task_A] (demo_world\<lparr>faults := [Open_Fails]\<rparr>)) = None
   \<and> disk (save_tasks [task_A] demo_world) = Some (Document (JArr (map asdict [task_A])))"
  using save_tasks_outcomes [of "demo_world\<lparr>faults := [Write_Fails]\<rparr>" "[task_A]"]
    save_tasks_outcomes [of "demo_world\<lparr>faults := [Open_Fails]\<rparr>" "[task_A]"]
    save_tasks_outcomes [of demo_world "[task_A]"]
  by (simp add: next_fault_def demo_world_def)

subsection \<open>Editing with an empty title\<close>

text \<open>
  Claim C3, as stated, fails: with the first row selected, the title answer blank, the
  priority answer \<^verbatim>\<open>high\<close> and the due answer empty, \<^verbatim>\<open>edit_selected\<close> raises nothing and
  shows no message box, and the targeted task has a new priority and no due date.
\<close>

theorem edit_empty_title_commits:
  "map_sum id tasks (edit_selected (Some ''  '') (Some ''high'') (Some []) demo_app) =
     Inr [\<lparr>title = ''A'', done = False, priority = ''High'', due = None,
            created = ''2024-05-01 08:00:00''\<rparr>, task_B]
   \<and> map_sum id tasks (edit_selected (Some ''  '') (Some ''high'') (Some []) demo_app)
       \<noteq> Inr (tasks demo_app)
   \<and> map_sum id (dialogs \<circ> env)
       (edit_selected (Some ''  '') (Some ''high'') (Some []) demo_app) = Inr []"
proof -
  let ?ts = "[task_A\<lparr>priority := ''High'', due := None\<rparr>, task_B]"
  have t: "tasks demo_app = [task_A, task_B]" and e: "env demo_app = demo_world"
    by (simp_all add: demo_app_def)
  have r: "edit_selected (Some ''  '') (Some ''high'') (Some []) demo_app =
      Inr (refresh_view (demo_app\<lparr>tasks := ?ts, env := save_tasks ?ts demo_world\<rparr>))"
    by (simp add: edit_selected_def selected_demo strip_blank strip_nil capitalize_high t e
        Let_def)
  have d: "dialogs (save_tasks ?ts (save_tasks ?ts demo_world)) = []"
    by (simp add: save_tasks_def next_fault_def demo_world_def)
  show ?thesis
    using d by (simp add: r tasks_refresh_view env_refresh_view t task_A_def)
qed

text \<open>
  Claim C3 as amended: for an in-bounds position and a title answer that is empty after
  trimming, \<^verbatim>\<open>edit_selected\<close> keeps the task's title (\<^verbatim>\<open>new_title.strip() or t.title\<close>) and
  goes on; when the capitalized priority answer is one of Low, Medium, High and the due
  answer is empty or a valid date, the task list afterwards is the old one with priority
  and due of the targeted task replaced, and title, done and created of that task and
  every other task as before.
\<close>

theorem edit_empty_title_keeps_title:
  assumes "selected_index st = Some idx" and "idx < length (tasks st)"
    and "strip ta = []"
    and "capitalize pa \<in> {''Low'', ''Medium'', ''High''}"
    and "strip da = [] \<or> valid_date (strip da)"
  shows "map_sum id tasks (edit_selected (Some ta) (Some pa) (Some da) st) =
           Inr ((tasks st)[idx := (tasks st ! idx)
                  \<lparr>priority := capitalize pa,
                   due := (if strip da = [] then None else Some (strip da))\<rparr>])"
  using assms by (auto simp: edit_selected_def Let_def tasks_refresh_view)

text \<open>
  The amended claim at the example store.
\<close>

theorem edit_empty_title_keeps_title_witness:
  "map_sum id tasks (edit_selected (Some ''  '') (Some ''high'') (Some []) demo_app) =
     Inr [task_A\<lparr>priority := ''High'', due := None\<rparr>, task_B]"
proof -
  have len: "0 < length (tasks demo_app)"
    by (simp add: demo_app_def)
  have cap: "capitalize ''high'' \<in> {''Low'', ''Medium'', ''High''}"
    by (simp add: capitalize_high)
  have due: "strip [] = [] \<or> valid_date (strip [])"
    by (simp add: strip_def)
  from edit_empty_title_keeps_title [OF selected_demo len strip_blank cap due]
  show ?thesis
    by (simp add: demo_app_def capitalize_high strip_def)
qed

subsection \<open>The creation stamp of added tasks\<close>

text \<open>
  Claim C4 says that every task constructed without an explicit \<^verbatim>\<open>created\<close> records the
  time of its own construction. The code evaluates the default once, in the class body:
  the module is loaded at 2024-06-01 12:00:00, a first task is added the next day and a
  second one the day after, and both carry the stamp of the class statement.
\<close>

theorem add_task_created_shared:
  "map_option
     (map created \<circ> tasks
      \<circ> add_task \<circ> type_title ''second'' \<circ> time_passes (Date 2024 6 3) ''2024-06-03 11:00:00''
      \<circ> add_task \<circ> type_title ''first'' \<circ> time_passes (Date 2024 6 2) ''2024-06-02 10:00:00'')
     (TodoApp_init (class_Task demo_world))
   = Some [''2024-06-01 12:00:00'', ''2024-06-01 12:00:00'']"
proof -
  define st0 where "st0 = refresh_view
       \<lparr>tasks = [], filtered_indices = [], search_var = [], filter_var = ''All'',
        title_var = [], priority_var = ''Medium'', due_var = [],
        tree_rows = [], selection = None, env = class_Task demo_world\<rparr>"
  define st1 where "st1 = type_title ''first'' (time_passes (Date 2024 6 2) ''2024-06-02 10:00:00'' st0)"
  define st2 where "st2 = type_title ''second'' (time_passes (Date 2024 6 3) ''2024-06-03 11:00:00'' (add_task st1))"
  have init: "TodoApp_init (class_Task demo_world) = Some st0"
    by (simp add: TodoApp_init_def load_tasks_def class_Task_def demo_world_def st0_def)
  have f0: "tasks st0 = [] \<and> due_var st0 = []
      \<and> Task_created_default (env st0) = ''2024-06-01 12:00:00''"
    by (simp add: st0_def tasks_refresh_view due_var_refresh_view env_refresh_view
        default_save_tasks class_Task_def demo_world_def)
  have f1: "tasks st1 = [] \<and> due_var st1 = [] \<and> title_var st1 = ''first''
      \<and> Task_created_default (env st1) = ''2024-06-01 12:00:00''"
    using f0 by (simp add: st1_def type_title_def time_passes_def clock_moves_def)
  have a1: "map created (tasks (add_task st1)) = [''2024-06-01 12:00:00'']
      \<and> due_var (add_task st1) = []
      \<and> Task_created_default (env (add_task st1)) = ''2024-06-01 12:00:00''"
    using add_task_appends [of st1] f1 by (simp add: strip_plain)
  have f2: "map created (tasks st2) = [''2024-06-01 12:00:00''] \<and> due_var st2 = []
      \<and> title_var st2 = ''second''
      \<and> Task_created_default (env st2) = ''2024-06-01 12:00:00''"
    using a1 by (simp add: st2_def type_title_def time_passes_def clock_moves_def)
  have a2: "map created (tasks (add_task st2))
      = [''2024-06-01 12:00:00'', ''2024-06-01 12:00:00'']"
    using add_task_appends [of st2] f2 by (simp add: strip_plain)
  show ?thesis
    using a2 by (simp add: init st1_def st2_def)
qed

subsection \<open>Overdue and due today\<close>

text \<open>
  Claim C5: when the task is done, or has no due date, or has a due string that
  \<^verbatim>\<open>strptime\<close> rejects, \<^verbatim>\<open>is_overdue\<close> and \<^verbatim>\<open>is_due_today\<close> are both false; otherwise
  \<^verbatim>\<open>is_overdue\<close> holds exactly when the parsed date is strictly before today and
  \<^verbatim>\<open>is_due_today\<close> exactly when it is today. Both functions are total: the only exception
  of the parse is the \<^verbatim>\<open>ValueError\<close> that the handler turns into \<^verbatim>\<open>False\<close>.
\<close>

theorem overdue_due_today_cases:
  "(done t \<or> due t = None \<or> (\<exists>s. due t = Some s \<and> strptime_date s = None)
      \<longrightarrow> \<not> is_overdue today t \<and> \<not> is_due_today today t)
   \<and> (\<forall>s d. \<not> done t \<and> due t = Some s \<and> strptime_date s = Some d
      \<longrightarrow> is_overdue today t = date_less d today \<and> is_due_today today t = (d = today))"
  by (auto simp: is_overdue_def is_due_today_def strptime_empty split: option.splits)

text \<open>
  Task A (due 2000-01-01, open) is overdue and not due today on 1 June 2024; task B
  (done, no due date) is neither.
\<close>

theorem overdue_due_today_cases_witness:
  "is_overdue (Date 2024 6 1) task_A \<and> \<not> is_due_today (Date 2024 6 1) task_A
   \<and> \<not> is_overdue (Date 2024 6 1) task_B \<and> \<not> is_due_today (Date 2024 6 1) task_B"
  using overdue_due_today_cases [of task_A "Date 2024 6 1"]
    overdue_due_today_cases [of task_B "Date 2024 6 1"] strptime_2000
  by (simp add: task_A_def task_B_def)

subsection \<open>The rebuilt projection\<close>



subsection \<open>Saving and loading again\<close>

text \<open>
  Claim C7: when the write succeeds, \<^verbatim>\<open>load_tasks\<close> after \<^verbatim>\<open>save_tasks\<close> returns the saved
  list itself, every field of every task and the order included, and shows no message
  box. This holds for every list, the empty one too.
\<close>

theorem save_load_roundtrip:
  assumes "next_fault w = No_Fault"
  shows "load_tasks (save_tasks ts w) = Returned ts (save_tasks ts w)"
  using assms by (simp add: load_tasks_def save_tasks_def load_items_asdict [of _ _ "[]", simplified])

text \<open>
  The round trip of the example store.
\<close>

theorem save_load_roundtrip_witness:
  "load_tasks (save_tasks [task_A, task_B] demo_world)
     = Returned [task_A, task_B] (save_tasks [task_A, task_B] demo_world)"
proof -
  have "next_fault demo_world = No_Fault"
    by (simp add: next_fault_def demo_world_def)
  from save_load_roundtrip [OF this] show ?thesis .
qed

subsection \<open>Clearing completed tasks\<close>

text \<open>
  Claim C8: after \<^verbatim>\<open>clear_completed\<close> the task list is the old list filtered to the tasks
  that were not done, in their order, and no task in it is done.
\<close>

theorem clear_completed_keeps_open_tasks:
  "tasks (clear_completed st) = filter (\<lambda>t. \<not> done t) (tasks st)
   \<and> (\<forall>t \<in> set (tasks (clear_completed st)). \<not> done t)"
  by (simp add: clear_completed_def Let_def tasks_refresh_view)

text \<open>
  Of the example store, task A remains.
\<close>

theorem clear_completed_keeps_open_tasks_witness:
  "tasks (clear_completed demo_app) = [task_A]"
  using clear_completed_keeps_open_tasks [of demo_app]
  by (simp add: demo_app_def task_A_def task_B_def)

subsection \<open>Every rebuild writes the file\<close>

text \<open>
  Claim C9: \<^verbatim>\<open>refresh_view\<close> ends with \<^verbatim>\<open>save_tasks\<close> on the unchanged task list, whatever
  triggered it; a write to the search variable or the filter variable is such a rebuild,
  so it attempts a write of the file although the task list is as before, and when the
  write succeeds the file holds the full serialized list.
\<close>

theorem refresh_view_always_saves:
  "env (refresh_view st) = save_tasks (tasks st) (env st)
   \<and> write_search_var s st = refresh_view (st\<lparr>search_var := s\<rparr>)
   \<and> write_filter_var f st = refresh_view (st\<lparr>filter_var := f\<rparr>)
   \<and> tasks (write_search_var s st) = tasks st
   \<and> env (write_search_var s st) = save_tasks (tasks st) (env st)
   \<and> env (write_filter_var f st) = save_tasks (tasks st) (env st)
   \<and> (next_fault (env st) = No_Fault \<longrightarrow>
        disk (env (write_search_var s st)) = Some (Document (JArr (map asdict (tasks st)))))"
  by (simp add: write_search_var_def write_filter_var_def env_refresh_view tasks_refresh_view
      save_tasks_def)

text \<open>
  One keystroke in the search entry of the example application, whose file was missing,
  creates the file with both tasks.
\<close>

theorem refresh_view_always_saves_witness:
  "disk (env (write_search_var ''a'' demo_app))
     = Some (Document (JArr (map asdict [task_A, task_B])))"
proof -
  have nf: "next_fault (env demo_app) = No_Fault"
    by (simp add: demo_app_def demo_world_def next_fault_def)
  have tk: "tasks demo_app = [task_A, task_B]"
    by (simp add: demo_app_def)
  from refresh_view_always_saves [of demo_app "''a''" "''All''"] nf
  have "disk (env (write_search_var ''a'' demo_app))
          = Some (Document (JArr (map asdict (tasks demo_app))))"
    by blast
  then show ?thesis by (simp only: tk)
qed

subsection \<open>Records without a title\<close>

text \<open>
  Claim C10: when the file holds a list of dicts whose fields have the annotated types,
  \<^verbatim>\<open>load_tasks\<close> returns one task per record without any message box, and the task of a
  record that has no \<^verbatim>\<open>title\<close> key has the empty title.
\<close>

theorem load_tasks_missing_title:
  assumes "disk w = Some (Document (JArr items))"
    and "\<forall>item \<in> set items. \<exists>kvs t. item = JObj kvs \<and> Task_of_item (clock_now w) kvs = Some t"
    and "i < length items" and "items ! i = JObj kvs"
    and "map_of kvs ''title'' = None"
  shows "\<exists>ts. load_tasks w = Returned ts w \<and> length ts = length items \<and> title (ts ! i) = []"
proof -
  let ?ts = "map (\<lambda>item. the (Task_of_item (clock_now w) (case item of JObj kvs \<Rightarrow> kvs | _ \<Rightarrow> []))) items"
  have ld: "load_items (clock_now w) items (Some []) = Loaded ?ts"
    using load_items_typed [OF assms(2), of "[]"] by simp
  have ret: "load_tasks w = Returned ?ts w"
    using assms(1) ld by (simp add: load_tasks_def)
  from assms(2,3,4) obtain t where t: "Task_of_item (clock_now w) kvs = Some t"
    by (metis json.inject(5) nth_mem)
  have "?ts ! i = t"
    using assms(3,4) t by simp
  then have "title (?ts ! i) = []"
    using Task_of_item_no_title [OF assms(5) t] by simp
  then show ?thesis
    using ret by (intro exI [of _ ?ts]) simp
qed

text \<open>
  The file \<^verbatim>\<open>[{"priority": "Low"}]\<close> loads as one task with the empty title.
\<close>

theorem load_tasks_missing_title_witness:
  "\<exists>ts. load_tasks (demo_world\<lparr>disk := Some (Document (JArr [JObj [(''priority'', JStr ''Low'')]]))\<rparr>)
          = Returned ts (demo_world\<lparr>disk := Some (Document (JArr [JObj [(''priority'', JStr ''Low'')]]))\<rparr>)
        \<and> length ts = length [JObj [(''priority'', JStr ''Low'')]] \<and> title (ts ! 0) = []"
proof -
  let ?items = "[JObj [(''priority'', JStr ''Low'')]]"
  let ?w = "demo_world\<lparr>disk := Some (Document (JArr ?items))\<rparr>"
  have d: "disk ?w = Some (Document (JArr ?items))"
    by simp
  have typed: "\<forall>item \<in> set ?items. \<exists>kvs t. item = JObj kvs \<and> Task_of_item (clock_now ?w) kvs = Some t"
    by (simp add: Task_of_item_def dict_get_def)
  have i: "0 < length ?items"
    by simp
  have at: "?items ! 0 = JObj [(''priority'', JStr ''Low'')]"
    by simp
  have nt: "map_of [(''priority'', JStr ''Low'')] ''title'' = None"
    by simp
  from load_tasks_missing_title [OF d typed i at nt] show ?thesis .
qed

end
